theory Spec2Isabelle
  imports Complex_Main
begin

section \<open>Data model\<close>

text \<open>
  The four Mongoose models of the backend (User, Question, Quiz, QuizAttempt) as records,
  and the database as the four collections, each a list of documents in insertion order.

  Modelling conventions:
  \<^item> an ObjectId is the string that \<^verbatim>\<open>toString()\<close> returns for it, since every comparison
    of ids in the routes goes through \<^verbatim>\<open>toString()\<close>;
  \<^item> a schema path of type String that is not required is a \<open>string option\<close>
    (\<open>None\<close> is JavaScript's \<^verbatim>\<open>undefined\<close>);
  \<^item> a JavaScript number is the rational it denotes. Counters, scores and sums of
    percentages are integers, on which the double arithmetic is exact below \<open>2^53\<close>; a
    division or multiplication with a fractional operand rounds its exact result to the
    nearest double (section on numbers below);
  \<^item> strings are ASCII.
\<close>

type_synonym oid = string

datatype role = Admin | Teacher | Student

record user =
  user_id :: oid
  name :: string
  email :: string
  password :: string
  role :: role
  isActive :: bool
  totalQuizzesTaken :: int
  user_averageScore :: int

record qoption =
  opt_id :: oid
  opt_text :: "string option"
  isCorrect :: bool

record question =
  question_id :: oid
  title :: string
  questionText :: string
  questionType :: string
  options :: "qoption list"
  correctAnswer :: "string option"
  explanation :: "string option"
  difficulty :: string
  subject :: string
  createdBy :: oid

record quiz =
  quiz_id :: oid
  quiz_title :: string
  quiz_subject :: string
  questions :: "oid list"
  quiz_createdBy :: oid
  timeLimit :: int
  maxAttempts :: int
  passingScore :: int
  isPublished :: bool
  allowedStudents :: "oid list"
  totalAttempts :: int
  averageScore :: int

text \<open>One element of \<^verbatim>\<open>QuizAttempt.answers\<close>. The stored correctness is \<open>None\<close> when the
  handler assigned \<^verbatim>\<open>undefined\<close> to it.\<close>

record answer_record =
  ans_question :: oid
  ans_selectedAnswer :: "string option"
  ans_isCorrect :: "bool option"
  ans_timeSpent :: int

record attempt =
  att_quiz :: oid
  student :: oid
  answers :: "answer_record list"
  score :: int
  percentage :: int
  timeSpent :: int
  startedAt :: int
  submittedAt :: int
  attemptNumber :: int
  passed :: bool

record db =
  Users :: "user list"
  Questions :: "question list"
  Quizzes :: "quiz list"
  QuizAttempts :: "attempt list"

text \<open>
  The outcome of a request that does not succeed, named after the failure kinds of the
  specification. The routes send: 401 for \<open>InvalidCredential\<close>, 403 for
  \<open>PermissionDenied\<close>, 404 for \<open>NotFound\<close>, 400 with message
  \<^verbatim>\<open>Validation errors\<close> for \<open>ValidationError\<close>, 400 with
  \<^verbatim>\<open>User already exists with this email\<close> for \<open>AlreadyExists\<close>, 400 with
  \<^verbatim>\<open>Maximum attempts exceeded\<close> for \<open>AttemptLimitExceeded\<close>, and 500 with
  \<^verbatim>\<open>Server error\<close> from the \<^verbatim>\<open>catch\<close> block of a handler for \<open>ServerError\<close>, which is
  where every exception thrown inside the handler ends. No route sends a response for
  \<open>InvalidAnswer\<close>.
\<close>

datatype failure =
    ValidationError
  | NotFound
  | PermissionDenied
  | AlreadyExists
  | AttemptLimitExceeded
  | InvalidAnswer
  | InvalidCredential
  | ServerError

section \<open>Strings and collections\<close>

text \<open>\<^verbatim>\<open>String.prototype.toLowerCase\<close> and \<^verbatim>\<open>String.prototype.trim\<close> on ASCII strings.\<close>

definition toLowerChar :: "char \<Rightarrow> char" where
  "toLowerChar c =
     (let n = (of_char c :: nat) in if 65 \<le> n \<and> n \<le> 90 then char_of (n + 32) else c)"

definition toLowerCase :: "string \<Rightarrow> string" where
  "toLowerCase s = map toLowerChar s"

definition isSpace :: "char \<Rightarrow> bool" where
  "isSpace c = ((of_char c :: nat) \<in> set [9, 10, 11, 12, 13, 32])"

definition trim :: "string \<Rightarrow> string" where
  "trim s = rev (dropWhile isSpace (rev (dropWhile isSpace s)))"

text \<open>
  \<^verbatim>\<open>Model.findById\<close> on a collection, and \<^verbatim>\<open>populate\<close> of an array of references: every id
  is replaced by the document it names, and an id that names no document is dropped.
\<close>

definition findById :: "('a \<Rightarrow> oid) \<Rightarrow> 'a list \<Rightarrow> oid \<Rightarrow> 'a option" where
  "findById key coll i = find (\<lambda>doc. key doc = i) coll"

definition populate :: "('a \<Rightarrow> oid) \<Rightarrow> 'a list \<Rightarrow> oid list \<Rightarrow> 'a list" where
  "populate key coll ids = List.map_filter (findById key coll) ids"

section \<open>Numbers\<close>

text \<open>
  The binary64 arithmetic of JavaScript on rationals. \<open>rne\<close> rounds to the nearest
  integer, ties to the even one. \<open>ilog2 x\<close> is the binary exponent of a positive \<open>x\<close>,
  that is \<open>\<lfloor>log\<^sub>2 x\<rfloor>\<close>, found by halving or doubling. \<open>fl x\<close> is the double nearest to
  \<open>x\<close>: the significand has 53 bits, so the spacing of doubles around \<open>x\<close> is
  \<open>2 ^ (e - 52)\<close> for the exponent \<open>e\<close> of \<open>x\<close>, and \<open>- 1022\<close> is the least exponent (below
  it the spacing stays that of the subnormal numbers). Overflow to \<^verbatim>\<open>Infinity\<close>, beyond
  \<open>2 ^ 1024\<close>, is outside the model.
\<close>

definition rne :: "rat \<Rightarrow> int" where
  "rne q =
     (let f = \<lfloor>q\<rfloor>; r = q - of_int f
      in if r < 1 / 2 then f else if 1 / 2 < r then f + 1 else if even f then f else f + 1)"

function log2_up :: "rat \<Rightarrow> int" where
  "log2_up x = (if 2 \<le> x then log2_up (x / 2) + 1 else 0)"
  by pat_completeness auto
termination
  by (relation "measure (\<lambda>x. nat \<lceil>x\<rceil>)") (auto, linarith)

function log2_down :: "rat \<Rightarrow> int" where
  "log2_down x = (if 0 < x \<and> x < 1 then log2_down (x * 2) - 1 else 0)"
  by pat_completeness auto
termination
proof (relation "measure (\<lambda>x. nat \<lceil>1 / x\<rceil>)")
  show "wf (measure (\<lambda>x::rat. nat \<lceil>1 / x\<rceil>))"
    by simp
next
  fix x :: rat
  assume "0 < x \<and> x < 1"
  then have x: "0 < x" and b: "1 < 1 / x"
    by simp_all
  have half: "1 / (x * 2) = 1 / x / 2"
    by simp
  have "\<lceil>1 / x / 2\<rceil> < \<lceil>1 / x\<rceil>"
  proof (cases "1 / x \<le> 2")
    case True
    then have "\<lceil>1 / x / 2\<rceil> \<le> 1"
      by (simp add: ceiling_le_iff)
    moreover from b have "1 < \<lceil>1 / x\<rceil>"
      by (simp add: less_ceiling_iff)
    ultimately show ?thesis
      by linarith
  next
    case False
    then have "1 / x / 2 \<le> 1 / x - 1"
      by simp
    then have "\<lceil>1 / x / 2\<rceil> \<le> \<lceil>1 / x - 1\<rceil>"
      by (rule ceiling_mono)
    then show ?thesis
      by simp
  qed
  then have "\<lceil>1 / (x * 2)\<rceil> < \<lceil>1 / x\<rceil>"
    by (simp only: half)
  moreover from x have "0 < \<lceil>1 / x\<rceil>"
    by (simp add: less_ceiling_iff)
  ultimately have "nat \<lceil>1 / (x * 2)\<rceil> < nat \<lceil>1 / x\<rceil>"
    by linarith
  then show "(x * 2, x) \<in> measure (\<lambda>x. nat \<lceil>1 / x\<rceil>)"
    by (simp only: in_measure)
qed

declare log2_up.simps [simp del] log2_down.simps [simp del]

definition ilog2 :: "rat \<Rightarrow> int" where
  "ilog2 x = (if 1 \<le> x then log2_up x else log2_down x)"

definition fl :: "rat \<Rightarrow> rat" where
  "fl x =
     (if x = 0 then 0
      else
        let e = max (ilog2 \<bar>x\<bar>) (- 1022);
            u = power_int 2 (e - 52)
        in sgn x * of_int (rne (\<bar>x\<bar> / u)) * u)"

text \<open>The operators \<^verbatim>\<open>/\<close> and \<^verbatim>\<open>*\<close> on doubles, for a divisor other than zero.\<close>

definition fdiv :: "rat \<Rightarrow> rat \<Rightarrow> rat" where
  "fdiv a b = fl (a / b)"

definition fmul :: "rat \<Rightarrow> rat \<Rightarrow> rat" where
  "fmul a b = fl (a * b)"

text \<open>\<^verbatim>\<open>Math.round\<close>: the nearest integer, a tie going upwards.\<close>

definition Math_round :: "rat \<Rightarrow> int" where
  "Math_round x = \<lfloor>x + 1 / 2\<rfloor>"

text \<open>The mean that both statistics updates compute with
  \<^verbatim>\<open>reduce((sum, att) => sum + att.percentage, 0) / length\<close>, on a list that is not empty.\<close>

definition avgScore :: "attempt list \<Rightarrow> rat" where
  "avgScore atts = fdiv (of_int (sum_list (map percentage atts))) (of_nat (length atts))"



section \<open>Middleware\<close>

text \<open>
  \<^verbatim>\<open>auth\<close> receives the user id that the verified token carries (\<open>None\<close> when there is no
  token or its verification throws), loads the user and rejects a missing or inactive one
  with 401. \<^verbatim>\<open>authorize(...roles)\<close> rejects with 403 a user whose role is not listed.
\<close>

definition auth :: "db \<Rightarrow> oid option \<Rightarrow> failure + user" where
  "auth d token =
     (case token of
        None \<Rightarrow> Inl InvalidCredential
      | Some userId \<Rightarrow>
          (case findById user_id (Users d) userId of
             None \<Rightarrow> Inl InvalidCredential
           | Some u \<Rightarrow> if \<not> isActive u then Inl InvalidCredential else Inr u))"

definition authorize :: "role list \<Rightarrow> user \<Rightarrow> bool" where
  "authorize roles u = (role u \<in> set roles)"

section \<open>Quiz submission\<close>

text \<open>The request body of \<^verbatim>\<open>POST /quizzes/:id/submit\<close>.\<close>

record answer =
  questionId :: oid
  selectedAnswer :: "string option"
  answer_timeSpent :: "int option"

record submit_body =
  body_answers :: "answer list"
  body_timeSpent :: "int option"

record attempt_result =
  res_score :: int
  res_percentage :: int
  res_passed :: bool
  res_timeSpent :: int
  res_attemptNumber :: int

text \<open>
  The body of the grading callback for one answer whose question was found. The result is
  the value of \<^verbatim>\<open>isCorrect\<close>: \<open>Inr None\<close> is \<^verbatim>\<open>undefined\<close> (from
  \<^verbatim>\<open>correctOption && ...\<close> when no option is marked correct), and \<open>Inl ServerError\<close> is the
  TypeError of calling \<^verbatim>\<open>toLowerCase\<close> on \<^verbatim>\<open>undefined\<close>, which the handler's \<^verbatim>\<open>catch\<close>
  turns into the 500 response.
\<close>

definition gradeAnswer :: "question \<Rightarrow> answer \<Rightarrow> failure + bool option" where
  "gradeAnswer q a =
     (if questionType q = ''multiple-choice'' then
        (case find isCorrect (options q) of
           None \<Rightarrow> Inr None
         | Some correctOption \<Rightarrow> Inr (Some (Some (opt_id correctOption) = selectedAnswer a)))
      else if questionType q = ''true-false'' then
        (case find isCorrect (options q) of
           None \<Rightarrow> Inr None
         | Some correctOption \<Rightarrow>
             (case opt_text correctOption of
                None \<Rightarrow> Inl ServerError
              | Some t \<Rightarrow>
                  (case selectedAnswer a of
                     None \<Rightarrow> Inl ServerError
                   | Some s \<Rightarrow> Inr (Some (toLowerCase t = toLowerCase s)))))
      else if questionType q = ''short-answer'' then
        (case correctAnswer q of
           None \<Rightarrow> Inl ServerError
         | Some c \<Rightarrow>
             (case selectedAnswer a of
                None \<Rightarrow> Inl ServerError
              | Some s \<Rightarrow> Inr (Some (trim (toLowerCase c) = trim (toLowerCase s)))))
      else Inr (Some False))"

text \<open>
  \<^verbatim>\<open>answers.map(answer => ...)\<close> with the counter \<^verbatim>\<open>correctAnswers\<close> threaded through. An
  answer whose \<^verbatim>\<open>questionId\<close> matches no populated question of the quiz makes
  \<^verbatim>\<open>question\<close> undefined, and reading \<^verbatim>\<open>question.questionType\<close> throws.
\<close>

fun processAnswers ::
  "question list \<Rightarrow> int \<Rightarrow> answer list \<Rightarrow> failure + (answer_record list \<times> int)" where
  "processAnswers qs correctAnswers [] = Inr ([], correctAnswers)"
| "processAnswers qs correctAnswers (a # as) =
     (case find (\<lambda>q. question_id q = questionId a) qs of
        None \<Rightarrow> Inl ServerError
      | Some q \<Rightarrow>
          (case gradeAnswer q a of
             Inl e \<Rightarrow> Inl e
           | Inr c \<Rightarrow>
               (case processAnswers qs (if c = Some True then correctAnswers + 1 else correctAnswers) as of
                  Inl e \<Rightarrow> Inl e
                | Inr (rest, n) \<Rightarrow>
                    Inr (\<lparr> ans_question = question_id q,
                           ans_selectedAnswer = selectedAnswer a,
                           ans_isCorrect = c,
                           ans_timeSpent = (case answer_timeSpent a of None \<Rightarrow> 0 | Some t \<Rightarrow> t) \<rparr>
                         # rest, n))))"

text \<open>
  An answer that the callback counts: its question is found and \<^verbatim>\<open>isCorrect\<close> is
  \<^verbatim>\<open>true\<close>, so that \<^verbatim>\<open>if (isCorrect) correctAnswers++\<close> fires.
\<close>

definition gradedCorrect :: "question list \<Rightarrow> answer \<Rightarrow> bool" where
  "gradedCorrect qs a =
     (case find (\<lambda>q. question_id q = questionId a) qs of
        None \<Rightarrow> False
      | Some q \<Rightarrow> gradeAnswer q a = Inr (Some True))"

text \<open>
  \<^verbatim>\<open>Math.round((correctAnswers / quiz.questions.length) * 100)\<close>. With no populated
  question the quotient is \<^verbatim>\<open>0 / 0\<close>, that is NaN (\<open>None\<close>).
\<close>

definition percentageOf :: "int \<Rightarrow> nat \<Rightarrow> int option" where
  "percentageOf correctAnswers len =
     (if len = 0 then None
      else Some (Math_round (fmul (fdiv (of_int correctAnswers) (of_nat len)) 100)))"

text \<open>
  The statistics updates after \<^verbatim>\<open>attempt.save()\<close>: the loaded quiz gets
  \<^verbatim>\<open>totalAttempts += 1\<close> and the rounded mean over all attempts of the quiz, and is saved;
  then the user is loaded again, and gets \<^verbatim>\<open>totalQuizzesTaken += 1\<close> and the rounded
  mean over all attempts of the student. A user that is no longer found makes
  \<^verbatim>\<open>user.totalQuizzesTaken\<close> throw after the attempt and the quiz have been saved.
\<close>

definition saveQuizStatistics :: "oid \<Rightarrow> quiz \<Rightarrow> db \<Rightarrow> db" where
  "saveQuizStatistics quizId quiz d =
     (let allAttempts = filter (\<lambda>att. att_quiz att = quizId) (QuizAttempts d);
          saved = (\<lambda>q. q\<lparr> totalAttempts := totalAttempts quiz + 1,
                          averageScore := Math_round (avgScore allAttempts) \<rparr>)
      in d\<lparr> Quizzes := map (\<lambda>q. if quiz_id q = quiz_id quiz then saved q else q) (Quizzes d) \<rparr>)"

definition saveUserStatistics :: "oid \<Rightarrow> db \<Rightarrow> failure + db" where
  "saveUserStatistics userId d =
     (case findById user_id (Users d) userId of
        None \<Rightarrow> Inl ServerError
      | Some u \<Rightarrow>
          (let userAttempts = filter (\<lambda>att. student att = userId) (QuizAttempts d);
               saved = (\<lambda>v. v\<lparr> totalQuizzesTaken := totalQuizzesTaken u + 1,
                               user_averageScore := Math_round (avgScore userAttempts) \<rparr>)
           in Inr (d\<lparr> Users := map (\<lambda>v. if user_id v = userId then saved v else v) (Users d) \<rparr>)))"

text \<open>
  The handler of \<^verbatim>\<open>POST /quizzes/:id/submit\<close> after the middleware, with the clock
  \<open>now\<close>. \<^verbatim>\<open>attempt.save()\<close> validates the document first: a NaN percentage fails the
  Number cast and a missing \<^verbatim>\<open>timeSpent\<close> fails \<^verbatim>\<open>required\<close>, so the save throws and
  nothing is written.
\<close>

definition submitHandler ::
  "int \<Rightarrow> db \<Rightarrow> user \<Rightarrow> oid \<Rightarrow> submit_body \<Rightarrow> (failure + attempt_result) \<times> db" where
  "submitHandler now d req_user quizId body =
     (case findById quiz_id (Quizzes d) quizId of
        None \<Rightarrow> (Inl NotFound, d)
      | Some quiz \<Rightarrow>
          if \<not> isPublished quiz then (Inl NotFound, d)
          else
            let quiz_questions = populate question_id (Questions d) (questions quiz);
                previousAttempts =
                  int (length (filter (\<lambda>att. att_quiz att = quizId \<and> student att = user_id req_user)
                                 (QuizAttempts d)))
            in
              if previousAttempts \<ge> maxAttempts quiz then (Inl AttemptLimitExceeded, d)
              else
                (case processAnswers quiz_questions 0 (body_answers body) of
                   Inl e \<Rightarrow> (Inl e, d)
                 | Inr (processedAnswers, correctAnswers) \<Rightarrow>
                     (case percentageOf correctAnswers (length quiz_questions) of
                        None \<Rightarrow> (Inl ServerError, d)
                      | Some pct \<Rightarrow>
                          (case body_timeSpent body of
                             None \<Rightarrow> (Inl ServerError, d)
                           | Some spent \<Rightarrow>
                               let attempt =
                                     \<lparr> att_quiz = quizId,
                                       student = user_id req_user,
                                       answers = processedAnswers,
                                       score = correctAnswers,
                                       percentage = pct,
                                       timeSpent = spent,
                                       startedAt = now - spent * 1000,
                                       submittedAt = now,
                                       attemptNumber = previousAttempts + 1,
                                       passed = (pct \<ge> passingScore quiz) \<rparr>;
                                   d1 = d\<lparr> QuizAttempts := QuizAttempts d @ [attempt] \<rparr>;
                                   d2 = saveQuizStatistics quizId quiz d1
                               in
                                 (case saveUserStatistics (user_id req_user) d2 of
                                    Inl e \<Rightarrow> (Inl e, d2)
                                  | Inr d3 \<Rightarrow>
                                      (Inr \<lparr> res_score = correctAnswers,
                                             res_percentage = pct,
                                             res_passed = (pct \<ge> passingScore quiz),
                                             res_timeSpent = spent,
                                             res_attemptNumber = previousAttempts + 1 \<rparr>,
                                       d3))))))"

text \<open>The route: \<^verbatim>\<open>auth\<close>, \<^verbatim>\<open>authorize('student')\<close>, then the handler.\<close>

definition submit ::
  "int \<Rightarrow> db \<Rightarrow> oid option \<Rightarrow> oid \<Rightarrow> submit_body \<Rightarrow> (failure + attempt_result) \<times> db" where
  "submit now d token quizId body =
     (case auth d token of
        Inl e \<Rightarrow> (Inl e, d)
      | Inr req_user \<Rightarrow>
          if \<not> authorize [Student] req_user then (Inl PermissionDenied, d)
          else submitHandler now d req_user quizId body)"

section \<open>Reading a quiz\<close>

text \<open>
  What \<^verbatim>\<open>res.json\<close> serialises for a question and its options. A key that is absent from
  the JSON (never set, or set to \<^verbatim>\<open>undefined\<close>) is \<open>None\<close>.
\<close>

record option_json =
  oj_id :: oid
  oj_text :: "string option"
  oj_isCorrect :: "bool option"

record question_json =
  qj_id :: oid
  qj_title :: string
  qj_questionText :: string
  qj_questionType :: string
  qj_options :: "option_json list"
  qj_correctAnswer :: "string option"
  qj_explanation :: "string option"
  qj_difficulty :: string
  qj_subject :: string
  qj_createdBy :: oid

text \<open>
  An element of \<^verbatim>\<open>quiz.questions\<close> as the response serialises it: the populated question
  document, or the bare id when the path is not populated.
\<close>

datatype question_entry = Doc question_json | Ref oid

record quiz_response =
  resp_quiz :: quiz
  resp_questions :: "question_entry list"
  resp_userAttempts :: "attempt list"

text \<open>\<^verbatim>\<open>q.toObject()\<close>: the whole question document.\<close>

definition toObject :: "question \<Rightarrow> question_json" where
  "toObject q =
     \<lparr> qj_id = question_id q,
       qj_title = title q,
       qj_questionText = questionText q,
       qj_questionType = questionType q,
       qj_options =
         map (\<lambda>opt. \<lparr> oj_id = opt_id opt, oj_text = opt_text opt,
                       oj_isCorrect = Some (isCorrect opt) \<rparr>) (options q),
       qj_correctAnswer = correctAnswer q,
       qj_explanation = explanation q,
       qj_difficulty = difficulty q,
       qj_subject = subject q,
       qj_createdBy = createdBy q \<rparr>"

text \<open>
  The callback of \<^verbatim>\<open>quiz.questions.map\<close> for a student: the spread of \<^verbatim>\<open>q.toObject()\<close>
  with \<^verbatim>\<open>options\<close> rebuilt from \<^verbatim>\<open>text\<close> and \<^verbatim>\<open>_id\<close> only, and \<^verbatim>\<open>correctAnswer\<close> and
  \<^verbatim>\<open>explanation\<close> set to \<^verbatim>\<open>undefined\<close>.
\<close>

definition studentView :: "question \<Rightarrow> question_json" where
  "studentView q =
     (toObject q)
       \<lparr> qj_options :=
           map (\<lambda>opt. \<lparr> oj_id = opt_id opt, oj_text = opt_text opt, oj_isCorrect = None \<rparr>)
             (options q),
         qj_correctAnswer := None,
         qj_explanation := None \<rparr>"

text \<open>
  The assignment \<^verbatim>\<open>quiz.questions = ...\<close> on the loaded Mongoose document. The schema
  declares \<^verbatim>\<open>questions\<close> as an array of ObjectId references, so the setter casts every
  element of the assigned array of plain objects to the ObjectId in its \<^verbatim>\<open>_id\<close>, and the
  path is no longer populated.
\<close>

definition castRef :: "question_json \<Rightarrow> question_entry" where
  "castRef j = Ref (qj_id j)"

definition assignQuestions :: "question_json list \<Rightarrow> question_entry list" where
  "assignQuestions objs = map castRef objs"

text \<open>
  \<^verbatim>\<open>GET /quizzes/:id\<close>. The quiz is loaded with \<^verbatim>\<open>createdBy\<close>, \<^verbatim>\<open>questions\<close> and
  \<^verbatim>\<open>allowedStudents\<close> populated; a creator whose account is gone is populated as
  \<^verbatim>\<open>null\<close>, so the teacher's ownership test throws on it. For a student the handler
  maps the populated questions to their student view and assigns the result to
  \<^verbatim>\<open>quiz.questions\<close>. The handler changes the loaded document only and never saves it;
  the database is returned as it was.
\<close>

definition getQuiz :: "db \<Rightarrow> oid option \<Rightarrow> oid \<Rightarrow> (failure + quiz_response) \<times> db" where
  "getQuiz d token quizId =
     (case auth d token of
        Inl e \<Rightarrow> (Inl e, d)
      | Inr req_user \<Rightarrow>
          (case findById quiz_id (Quizzes d) quizId of
             None \<Rightarrow> (Inl NotFound, d)
           | Some quiz \<Rightarrow>
               let quiz_questions = populate question_id (Questions d) (questions quiz);
                   quiz_allowedStudents = populate user_id (Users d) (allowedStudents quiz)
               in
                 if role req_user = Student then
                   if \<not> isPublished quiz then (Inl PermissionDenied, d)
                   else if length quiz_allowedStudents > 0
                           \<and> \<not> list_ex (\<lambda>st. user_id st = user_id req_user) quiz_allowedStudents
                   then (Inl PermissionDenied, d)
                   else
                     (Inr \<lparr> resp_quiz = quiz,
                            resp_questions = assignQuestions (map studentView quiz_questions),
                            resp_userAttempts =
                              rev (sort_key attemptNumber
                                (filter (\<lambda>att. att_quiz att = quiz_id quiz
                                               \<and> student att = user_id req_user)
                                   (QuizAttempts d))) \<rparr>,
                      d)
                 else if role req_user = Teacher then
                   (case findById user_id (Users d) (quiz_createdBy quiz) of
                      None \<Rightarrow> (Inl ServerError, d)
                    | Some creator \<Rightarrow>
                        if user_id creator \<noteq> user_id req_user then (Inl PermissionDenied, d)
                        else
                          (Inr \<lparr> resp_quiz = quiz,
                                 resp_questions = map (\<lambda>q. Doc (toObject q)) quiz_questions,
                                 resp_userAttempts = [] \<rparr>,
                           d))
                 else
                   (Inr \<lparr> resp_quiz = quiz,
                          resp_questions = map (\<lambda>q. Doc (toObject q)) quiz_questions,
                          resp_userAttempts = [] \<rparr>,
                    d)))"

section \<open>Question routes\<close>

text \<open>
  \<^verbatim>\<open>GET\<close>, \<^verbatim>\<open>PUT\<close> and \<^verbatim>\<open>DELETE /questions/:id\<close>, each behind \<^verbatim>\<open>auth\<close> and
  \<^verbatim>\<open>authorize('admin', 'teacher')\<close>. The read route populates \<^verbatim>\<open>createdBy\<close> before the
  ownership test and so throws on a creator whose account is gone; the other two compare
  the stored id.
\<close>

definition getQuestion :: "db \<Rightarrow> oid option \<Rightarrow> oid \<Rightarrow> (failure + question) \<times> db" where
  "getQuestion d token i =
     (case auth d token of
        Inl e \<Rightarrow> (Inl e, d)
      | Inr req_user \<Rightarrow>
          if \<not> authorize [Admin, Teacher] req_user then (Inl PermissionDenied, d)
          else
            (case findById question_id (Questions d) i of
               None \<Rightarrow> (Inl NotFound, d)
             | Some q \<Rightarrow>
                 if role req_user = Teacher then
                   (case findById user_id (Users d) (createdBy q) of
                      None \<Rightarrow> (Inl ServerError, d)
                    | Some creator \<Rightarrow>
                        if user_id creator \<noteq> user_id req_user then (Inl PermissionDenied, d)
                        else (Inr q, d))
                 else (Inr q, d)))"

text \<open>
  The schema validation that \<^verbatim>\<open>question.save()\<close> runs: the required strings are present
  and the two enumerated paths hold one of their values.
\<close>

definition validQuestion :: "question \<Rightarrow> bool" where
  "validQuestion q =
     (title q \<noteq> [] \<and> questionText q \<noteq> [] \<and> subject q \<noteq> []
      \<and> questionType q \<in> set [''multiple-choice'', ''true-false'', ''short-answer'']
      \<and> difficulty q \<in> set [''easy'', ''medium'', ''hard''])"

text \<open>
  \<^verbatim>\<open>PUT /questions/:id\<close>; \<open>assign\<close> is the effect of \<^verbatim>\<open>Object.assign(question, req.body)\<close>
  on the loaded document.
\<close>

definition updateQuestion ::
  "db \<Rightarrow> oid option \<Rightarrow> oid \<Rightarrow> (question \<Rightarrow> question) \<Rightarrow> (failure + question) \<times> db" where
  "updateQuestion d token i assign =
     (case auth d token of
        Inl e \<Rightarrow> (Inl e, d)
      | Inr req_user \<Rightarrow>
          if \<not> authorize [Admin, Teacher] req_user then (Inl PermissionDenied, d)
          else
            (case findById question_id (Questions d) i of
               None \<Rightarrow> (Inl NotFound, d)
             | Some q \<Rightarrow>
                 if role req_user = Teacher \<and> createdBy q \<noteq> user_id req_user
                 then (Inl PermissionDenied, d)
                 else if \<not> validQuestion (assign q) then (Inl ServerError, d)
                 else
                   (Inr (assign q),
                    d\<lparr> Questions :=
                         map (\<lambda>x. if question_id x = i then assign q else x) (Questions d) \<rparr>)))"

definition deleteQuestion :: "db \<Rightarrow> oid option \<Rightarrow> oid \<Rightarrow> (failure + unit) \<times> db" where
  "deleteQuestion d token i =
     (case auth d token of
        Inl e \<Rightarrow> (Inl e, d)
      | Inr req_user \<Rightarrow>
          if \<not> authorize [Admin, Teacher] req_user then (Inl PermissionDenied, d)
          else
            (case findById question_id (Questions d) i of
               None \<Rightarrow> (Inl NotFound, d)
             | Some q \<Rightarrow>
                 if role req_user = Teacher \<and> createdBy q \<noteq> user_id req_user
                 then (Inl PermissionDenied, d)
                 else
                   (Inr (),
                    d\<lparr> Questions := filter (\<lambda>x. question_id x \<noteq> i) (Questions d) \<rparr>)))"

section \<open>Creating accounts\<close>

text \<open>
  The body of \<^verbatim>\<open>POST /auth/register\<close> and of \<^verbatim>\<open>POST /users\<close>. A missing string field
  is the empty string, which fails the same validators as \<^verbatim>\<open>undefined\<close>.
\<close>

record account_body =
  body_name :: string
  body_email :: string
  body_password :: string
  body_role :: "string option"

text \<open>
  What the handlers take from libraries: the \<^verbatim>\<open>isEmail\<close> validator and the
  \<^verbatim>\<open>normalizeEmail\<close> sanitizer of express-validator, the bcrypt hash of the pre-save
  hook, and the ObjectId that Mongoose gives the new document.
\<close>

record externals =
  isEmail :: "string \<Rightarrow> bool"
  normalizeEmail :: "string \<Rightarrow> string"
  bcrypt_hash :: "string \<Rightarrow> string"
  newId :: oid

text \<open>The \<^verbatim>\<open>enum\<close> of the \<^verbatim>\<open>role\<close> path of the user schema.\<close>

definition castRole :: "string \<Rightarrow> role option" where
  "castRole r =
     (if r = ''admin'' then Some Admin
      else if r = ''teacher'' then Some Teacher
      else if r = ''student'' then Some Student
      else None)"

text \<open>\<^verbatim>\<open>new User({name, email, password, role})\<close> followed by \<^verbatim>\<open>user.save()\<close>: the schema
  trims the name, trims and lower-cases the email, rejects a role outside the enum, and
  the pre-save hook hashes the password.\<close>

definition saveNewUser ::
  "externals \<Rightarrow> db \<Rightarrow> string \<Rightarrow> string \<Rightarrow> string \<Rightarrow> string \<Rightarrow> (failure + user) \<times> db" where
  "saveNewUser ext d name' email' password' role' =
     (case castRole role' of
        None \<Rightarrow> (Inl ServerError, d)
      | Some r \<Rightarrow>
          let u = \<lparr> user_id = newId ext,
                    name = trim name',
                    email = trim (toLowerCase email'),
                    password = bcrypt_hash ext password',
                    role = r,
                    isActive = True,
                    totalQuizzesTaken = 0,
                    user_averageScore = 0 \<rparr>
          in (Inr u, d\<lparr> Users := Users d @ [u] \<rparr>))"

text \<open>
  \<^verbatim>\<open>POST /auth/register\<close>, a public route. After the validators, the handler destructures
  \<^verbatim>\<open>name\<close>, \<^verbatim>\<open>email\<close> and \<^verbatim>\<open>password\<close> from the body and then executes
  \<^verbatim>\<open>role = 'admin'\<close>; the user is built with \<^verbatim>\<open>role: role || 'student'\<close>.
\<close>

definition register :: "externals \<Rightarrow> db \<Rightarrow> account_body \<Rightarrow> (failure + user) \<times> db" where
  "register ext d body =
     (let name' = trim (body_name body);
          email' = normalizeEmail ext (body_email body)
      in
        if \<not> (2 \<le> length name' \<and> length name' \<le> 50
               \<and> isEmail ext (body_email body)
               \<and> 6 \<le> length (body_password body)
               \<and> (case body_role body of
                     None \<Rightarrow> True
                   | Some r \<Rightarrow> r \<in> set [''admin'', ''teacher'', ''student'']))
        then (Inl ValidationError, d)
        else
          let role' = ''admin'' in
            (case find (\<lambda>u. email u = trim (toLowerCase email')) (Users d) of
               Some existingUser \<Rightarrow> (Inl AlreadyExists, d)
             | None \<Rightarrow>
                 saveNewUser ext d name' email' (body_password body)
                   (if role' \<noteq> [] then role' else ''student'')))"

text \<open>
  \<^verbatim>\<open>POST /users\<close>, behind \<^verbatim>\<open>auth\<close> and \<^verbatim>\<open>authorize('admin')\<close>: the role is required and
  is taken from the body.
\<close>

definition createUser ::
  "externals \<Rightarrow> db \<Rightarrow> oid option \<Rightarrow> account_body \<Rightarrow> (failure + user) \<times> db" where
  "createUser ext d token body =
     (case auth d token of
        Inl e \<Rightarrow> (Inl e, d)
      | Inr req_user \<Rightarrow>
          if \<not> authorize [Admin] req_user then (Inl PermissionDenied, d)
          else
            let name' = trim (body_name body);
                email' = normalizeEmail ext (body_email body)
            in
              (case body_role body of
                 None \<Rightarrow> (Inl ValidationError, d)
               | Some role' \<Rightarrow>
                   if \<not> (2 \<le> length name' \<and> length name' \<le> 50
                          \<and> isEmail ext (body_email body)
                          \<and> 6 \<le> length (body_password body)
                          \<and> role' \<in> set [''admin'', ''teacher'', ''student''])
                   then (Inl ValidationError, d)
                   else
                     (case find (\<lambda>u. email u = trim (toLowerCase email')) (Users d) of
                        Some existingUser \<Rightarrow> (Inl AlreadyExists, d)
                      | None \<Rightarrow> saveNewUser ext d name' email' (body_password body) role')))"

section \<open>Score distribution of the quiz analytics\<close>










section \<open>Example data\<close>

text \<open>
  A small database on which the theorems below are instantiated: two teachers, a student,
  four multiple-choice questions of teacher \<open>tA\<close> (option \<open>b\<close> is the correct one), a
  short-answer question stored without \<^verbatim>\<open>correctAnswer\<close>, and three published quizzes.
\<close>

definition teacherA :: user where
  "teacherA = \<lparr> user_id = ''tA'', name = ''Ada'', email = ''ada@example.org'',
     password = ''$2a$12$a'', role = Teacher, isActive = True, totalQuizzesTaken = 0,
     user_averageScore = 0 \<rparr>"

definition teacherB :: user where
  "teacherB = \<lparr> user_id = ''tB'', name = ''Bob'', email = ''bob@example.org'',
     password = ''$2a$12$b'', role = Teacher, isActive = True, totalQuizzesTaken = 0,
     user_averageScore = 0 \<rparr>"

definition student1 :: user where
  "student1 = \<lparr> user_id = ''s1'', name = ''Sam'', email = ''sam@example.org'',
     password = ''$2a$12$s'', role = Student, isActive = True, totalQuizzesTaken = 0,
     user_averageScore = 0 \<rparr>"

definition choiceQuestion :: "oid \<Rightarrow> question" where
  "choiceQuestion i =
     \<lparr> question_id = i, title = ''Capital city'', questionText = ''Pick the capital city'',
       questionType = ''multiple-choice'',
       options = [\<lparr> opt_id = i @ ''a'', opt_text = Some ''Lyon'', isCorrect = False \<rparr>,
                  \<lparr> opt_id = i @ ''b'', opt_text = Some ''Paris'', isCorrect = True \<rparr>],
       correctAnswer = None, explanation = Some ''Paris is the capital'',
       difficulty = ''medium'', subject = ''geography'', createdBy = ''tA'' \<rparr>"

definition shortQuestion :: question where
  "shortQuestion =
     \<lparr> question_id = ''q5'', title = ''Capital city'', questionText = ''Name the capital city'',
       questionType = ''short-answer'', options = [],
       correctAnswer = None, explanation = None,
       difficulty = ''medium'', subject = ''geography'', createdBy = ''tA'' \<rparr>"

definition quiz4 :: quiz where
  "quiz4 = \<lparr> quiz_id = ''z4'', quiz_title = ''Capitals'', quiz_subject = ''geography'',
     questions = [''q1'', ''q2'', ''q3'', ''q4''], quiz_createdBy = ''tA'', timeLimit = 30,
     maxAttempts = 3, passingScore = 60, isPublished = True, allowedStudents = [],
     totalAttempts = 0, averageScore = 0 \<rparr>"

definition quiz1 :: quiz where
  "quiz1 = \<lparr> quiz_id = ''z1'', quiz_title = ''One capital'', quiz_subject = ''geography'',
     questions = [''q1''], quiz_createdBy = ''tA'', timeLimit = 30,
     maxAttempts = 1, passingScore = 60, isPublished = True, allowedStudents = [],
     totalAttempts = 0, averageScore = 0 \<rparr>"

definition quiz2 :: quiz where
  "quiz2 = \<lparr> quiz_id = ''z2'', quiz_title = ''Two capitals'', quiz_subject = ''geography'',
     questions = [''q1'', ''q5''], quiz_createdBy = ''tA'', timeLimit = 30,
     maxAttempts = 3, passingScore = 60, isPublished = True, allowedStudents = [],
     totalAttempts = 0, averageScore = 0 \<rparr>"

definition exampleDb :: db where
  "exampleDb =
     \<lparr> Users = [teacherA, teacherB, student1],
       Questions = [choiceQuestion ''q1'', choiceQuestion ''q2'', choiceQuestion ''q3'',
                    choiceQuestion ''q4'', shortQuestion],
       Quizzes = [quiz4, quiz1, quiz2],
       QuizAttempts = [] \<rparr>"

definition pick :: "oid \<Rightarrow> string \<Rightarrow> answer" where
  "pick i s = \<lparr> questionId = i, selectedAnswer = Some s, answer_timeSpent = Some 30 \<rparr>"

text \<open>Three of the four questions of \<open>quiz4\<close> answered correctly, and all four.\<close>

definition threeOfFour :: submit_body where
  "threeOfFour =
     \<lparr> body_answers = [pick ''q1'' ''q1b'', pick ''q2'' ''q2b'', pick ''q3'' ''q3b'',
                        pick ''q4'' ''q4a''],
       body_timeSpent = Some 120 \<rparr>"

definition fourOfFour :: submit_body where
  "fourOfFour =
     \<lparr> body_answers = [pick ''q1'' ''q1b'', pick ''q2'' ''q2b'', pick ''q3'' ''q3b'',
                        pick ''q4'' ''q4b''],
       body_timeSpent = Some 120 \<rparr>"

definition afterThreeOfFour :: db where
  "afterThreeOfFour = snd (submit 1000000 exampleDb (Some ''s1'') ''z4'' threeOfFour)"

definition afterFourOfFour :: db where
  "afterFourOfFour = snd (submit 2000000 afterThreeOfFour (Some ''s1'') ''z4'' fourOfFour)"

text \<open>The attempt that the first of the two submissions persists.\<close>

definition firstAttempt :: attempt where
  "firstAttempt =
     \<lparr> att_quiz = ''z4'', student = ''s1'',
       answers = [\<lparr> ans_question = ''q1'', ans_selectedAnswer = Some ''q1b'',
                    ans_isCorrect = Some True, ans_timeSpent = 30 \<rparr>,
                  \<lparr> ans_question = ''q2'', ans_selectedAnswer = Some ''q2b'',
                    ans_isCorrect = Some True, ans_timeSpent = 30 \<rparr>,
                  \<lparr> ans_question = ''q3'', ans_selectedAnswer = Some ''q3b'',
                    ans_isCorrect = Some True, ans_timeSpent = 30 \<rparr>,
                  \<lparr> ans_question = ''q4'', ans_selectedAnswer = Some ''q4a'',
                    ans_isCorrect = Some False, ans_timeSpent = 30 \<rparr>],
       score = 3, percentage = 75, timeSpent = 120, startedAt = 880000,
       submittedAt = 1000000, attemptNumber = 1, passed = True \<rparr>"

text \<open>The single question of \<open>quiz1\<close> answered correctly, once and twice in one body.\<close>

definition oneOfOne :: submit_body where
  "oneOfOne = \<lparr> body_answers = [pick ''q1'' ''q1b''], body_timeSpent = Some 60 \<rparr>"

definition sameAnswerTwice :: submit_body where
  "sameAnswerTwice =
     \<lparr> body_answers = [pick ''q1'' ''q1b'', pick ''q1'' ''q1b''], body_timeSpent = Some 60 \<rparr>"

definition afterOneOfOne :: db where
  "afterOneOfOne = snd (submit 1000000 exampleDb (Some ''s1'') ''z1'' oneOfOne)"

text \<open>The attempt that the single correct answer persists.\<close>

definition onlyAttempt :: attempt where
  "onlyAttempt =
     \<lparr> att_quiz = ''z1'', student = ''s1'',
       answers = [\<lparr> ans_question = ''q1'', ans_selectedAnswer = Some ''q1b'',
                    ans_isCorrect = Some True, ans_timeSpent = 30 \<rparr>],
       score = 1, percentage = 100, timeSpent = 60, startedAt = 940000,
       submittedAt = 1000000, attemptNumber = 1, passed = True \<rparr>"

definition afterSameAnswerTwice :: db where
  "afterSameAnswerTwice = snd (submit 1000000 exampleDb (Some ''s1'') ''z1'' sameAnswerTwice)"



text \<open>Both questions of \<open>quiz2\<close> answered; the second is the short-answer question.\<close>

definition withShortAnswer :: submit_body where
  "withShortAnswer = \<lparr> body_answers = [pick ''q1'' ''q1b'', pick ''q5'' ''Paris''],
     body_timeSpent = Some 60 \<rparr>"

text \<open>Stand-ins for the library functions, and a registration that asks for the role
  \<^verbatim>\<open>student\<close>.\<close>

definition exampleExt :: externals where
  "exampleExt = \<lparr> isEmail = (\<lambda>s. CHR ''@'' \<in> set s), normalizeEmail = toLowerCase,
     bcrypt_hash = (\<lambda>p. ''$2a$12$'' @ p), newId = ''u9'' \<rparr>"

definition newcomer :: account_body where
  "newcomer = \<lparr> body_name = ''Eve'', body_email = ''eve@example.org'',
     body_password = ''secret1'', body_role = Some ''student'' \<rparr>"

text \<open>
  A quiz of forty multiple-choice questions with passing score 58, and a body that answers
  the first twenty-three of them correctly and leaves the others out.
\<close>

definition ids40 :: "oid list" where
  "ids40 =
     [''a0'', ''a1'', ''a2'', ''a3'', ''a4'', ''a5'', ''a6'', ''a7'', ''a8'', ''a9'',
       ''b0'', ''b1'', ''b2'', ''b3'', ''b4'', ''b5'', ''b6'', ''b7'', ''b8'', ''b9'',
       ''c0'', ''c1'', ''c2'', ''c3'', ''c4'', ''c5'', ''c6'', ''c7'', ''c8'', ''c9'',
       ''d0'', ''d1'', ''d2'', ''d3'', ''d4'', ''d5'', ''d6'', ''d7'', ''d8'', ''d9'']"

definition quiz40 :: quiz where
  "quiz40 = \<lparr> quiz_id = ''z40'', quiz_title = ''Forty capitals'', quiz_subject = ''geography'',
     questions = ids40, quiz_createdBy = ''tA'', timeLimit = 60,
     maxAttempts = 3, passingScore = 58, isPublished = True, allowedStudents = [],
     totalAttempts = 0, averageScore = 0 \<rparr>"

definition bigDb :: db where
  "bigDb =
     \<lparr> Users = [teacherA, student1],
       Questions = map choiceQuestion ids40,
       Quizzes = [quiz40],
       QuizAttempts = [] \<rparr>"

definition twentyThree :: submit_body where
  "twentyThree =
     \<lparr> body_answers = map (\<lambda>i. pick i (i @ ''b'')) (take 23 ids40),
       body_timeSpent = Some 1200 \<rparr>"

section \<open>Properties of the building blocks\<close>



lemma find_map_key:
  assumes "\<And>i. key (f i) = i"
  shows "find (\<lambda>q. key q = i) (map f ids) = (if i \<in> set ids then Some (f i) else None)"
  using assms by (induction ids) auto

lemma populate_map_key:
  assumes "\<And>i. key (f i) = i" and "set js \<subseteq> set ids"
  shows "populate key (map f ids) js = map f js"
  using assms(2)
  by (induction js)
     (simp_all add: populate_def List.map_filter_def findById_def
        find_map_key[of key f, OF assms(1)])


text \<open>The counter that \<open>processAnswers\<close> returns has grown by the number of answers
  graded correct, which is also the number of stored answer records marked correct.\<close>

lemma processAnswers_count:
  "processAnswers qs n as = Inr (ps, m) \<Longrightarrow>
     m = n + int (length (filter (gradedCorrect qs) as))
     \<and> m = n + int (length (filter (\<lambda>p. ans_isCorrect p = Some True) ps))
     \<and> length ps = length as"
proof (induction as arbitrary: n ps m)
  case Nil
  then show ?case by simp
next
  case (Cons a as)
  from Cons.prems obtain q c rest where
    q: "find (\<lambda>q. question_id q = questionId a) qs = Some q"
    and c: "gradeAnswer q a = Inr c"
    and rest: "processAnswers qs (if c = Some True then n + 1 else n) as = Inr (rest, m)"
    and ps: "ps = \<lparr> ans_question = question_id q, ans_selectedAnswer = selectedAnswer a,
                ans_isCorrect = c,
                ans_timeSpent = (case answer_timeSpent a of None \<Rightarrow> 0 | Some t \<Rightarrow> t) \<rparr> # rest"
    by (auto split: option.splits sum.splits prod.splits)
  from Cons.IH[OF rest] q c ps show ?case
    by (auto simp: gradedCorrect_def)
qed


text \<open>A successful submission went through the two middlewares, and the handler took
  the one path that persists an attempt.\<close>

lemma submit_success:
  assumes "submit now d token quizId body = (Inr r, d')"
  obtains u where "auth d token = Inr u" "role u = Student"
    "submitHandler now d u quizId body = (Inr r, d')"
  using assms
  by (auto simp: submit_def authorize_def split: sum.splits if_splits)

lemma submitHandler_success:
  assumes "submitHandler now d u quizId body = (Inr r, d')"
      and "findById quiz_id (Quizzes d) quizId = Some quiz"
  obtains ps c pct spent att d1 d2 where
    "isPublished quiz"
    "processAnswers (populate question_id (Questions d) (questions quiz)) 0 (body_answers body)
       = Inr (ps, c)"
    "percentageOf c (length (populate question_id (Questions d) (questions quiz))) = Some pct"
    "body_timeSpent body = Some spent"
    "att = \<lparr> att_quiz = quizId, student = user_id u, answers = ps, score = c, percentage = pct,
              timeSpent = spent, startedAt = now - spent * 1000, submittedAt = now,
              attemptNumber =
                int (length (filter (\<lambda>att. att_quiz att = quizId \<and> student att = user_id u)
                               (QuizAttempts d))) + 1,
              passed = (pct \<ge> passingScore quiz) \<rparr>"
    "d1 = d\<lparr> QuizAttempts := QuizAttempts d @ [att] \<rparr>"
    "d2 = saveQuizStatistics quizId quiz d1"
    "saveUserStatistics (user_id u) d2 = Inr d'"
    "r = \<lparr> res_score = c, res_percentage = pct, res_passed = (pct \<ge> passingScore quiz),
            res_timeSpent = spent,
            res_attemptNumber =
              int (length (filter (\<lambda>att. att_quiz att = quizId \<and> student att = user_id u)
                             (QuizAttempts d))) + 1 \<rparr>"
  using assms
  by (auto simp: submitHandler_def Let_def split: if_splits sum.splits option.splits prod.splits)

lemma studentView_hidden:
  "qj_id (studentView q) = question_id q
   \<and> map (\<lambda>opt. (oj_id opt, oj_text opt)) (qj_options (studentView q))
       = map (\<lambda>opt. (opt_id opt, opt_text opt)) (options q)
   \<and> list_all (\<lambda>opt. oj_isCorrect opt = None) (qj_options (studentView q))
   \<and> qj_correctAnswer (studentView q) = None
   \<and> qj_explanation (studentView q) = None"
  by (simp add: studentView_def toObject_def list_all_iff comp_def)


section \<open>The example database\<close>

lemmas example_defs = exampleDb_def teacherA_def teacherB_def student1_def choiceQuestion_def
  shortQuestion_def quiz4_def quiz1_def quiz2_def pick_def

text \<open>The double arithmetic of the examples, evaluated.\<close>

lemma percentage_values:
  "percentageOf 3 4 = Some 75" "percentageOf 4 4 = Some 100" "percentageOf 1 1 = Some 100"
  "percentageOf 2 1 = Some 200" "percentageOf 1 2 = Some 50" "percentageOf 23 40 = Some 57"
  by code_simp+

lemma percentage_values_Suc:
  "percentageOf 3 (Suc (Suc (Suc (Suc 0)))) = Some 75"
  "percentageOf 4 (Suc (Suc (Suc (Suc 0)))) = Some 100"
  "percentageOf 1 (Suc 0) = Some 100"
  "percentageOf 2 (Suc 0) = Some 200"
  "percentageOf 1 (Suc (Suc 0)) = Some 50"
  using percentage_values by (simp_all add: eval_nat_numeral)

lemma mean_values:
  "Math_round (fdiv 75 1) = 75" "Math_round (fdiv 100 1) = 100" "Math_round (fdiv 200 1) = 200"
  "Math_round (fdiv 57 1) = 57" "Math_round (fdiv 175 2) = 88"
  by code_simp+

lemma mean_exact: "fdiv 175 2 = 175 / 2"
  by code_simp

lemmas submit_defs = submit_def submitHandler_def auth_def authorize_def findById_def
  populate_def List.map_filter_def gradeAnswer_def saveQuizStatistics_def
  saveUserStatistics_def avgScore_def Let_def percentage_values_Suc mean_values

lemma afterThreeOfFour_eq:
  "afterThreeOfFour =
     exampleDb\<lparr> Users := [teacherA, teacherB,
                           student1\<lparr> totalQuizzesTaken := 1, user_averageScore := 75 \<rparr>],
                Quizzes := [quiz4\<lparr> totalAttempts := 1, averageScore := 75 \<rparr>, quiz1, quiz2],
                QuizAttempts := [firstAttempt] \<rparr>"
  by (simp add: afterThreeOfFour_def example_defs submit_defs threeOfFour_def firstAttempt_def)

lemma afterOneOfOne_eq:
  "afterOneOfOne =
     exampleDb\<lparr> Users := [teacherA, teacherB,
                           student1\<lparr> totalQuizzesTaken := 1, user_averageScore := 100 \<rparr>],
                Quizzes := [quiz4, quiz1\<lparr> totalAttempts := 1, averageScore := 100 \<rparr>, quiz2],
                QuizAttempts := [onlyAttempt] \<rparr>"
  by (simp add: afterOneOfOne_def example_defs submit_defs oneOfOne_def onlyAttempt_def)

lemma first_submit:
  "submit 1000000 exampleDb (Some ''s1'') ''z4'' threeOfFour =
     (Inr \<lparr> res_score = 3, res_percentage = 75, res_passed = True, res_timeSpent = 120,
            res_attemptNumber = 1 \<rparr>, afterThreeOfFour)"
proof -
  have "fst (submit 1000000 exampleDb (Some ''s1'') ''z4'' threeOfFour) =
    Inr \<lparr> res_score = 3, res_percentage = 75, res_passed = True, res_timeSpent = 120,
          res_attemptNumber = 1 \<rparr>"
    by (simp add: example_defs submit_defs threeOfFour_def)
  then show ?thesis
    by (simp add: afterThreeOfFour_def prod_eq_iff)
qed


lemma afterFourOfFour_quiz:
  "findById quiz_id (Quizzes afterFourOfFour) ''z4''
     = Some (quiz4\<lparr> totalAttempts := 2, averageScore := 88 \<rparr>)"
  by (simp add: afterFourOfFour_def afterThreeOfFour_eq example_defs submit_defs fourOfFour_def
        firstAttempt_def)


lemma afterSameAnswerTwice_percentages:
  "map percentage (QuizAttempts afterSameAnswerTwice) = [200]"
  by (simp add: afterSameAnswerTwice_def example_defs submit_defs sameAnswerTwice_def)

text \<open>The forty-question quiz: every question is found, and an answer that picks option
  \<open>b\<close> is graded correct.\<close>

lemma choiceQuestion_id: "question_id (choiceQuestion i) = i"
  by (simp add: choiceQuestion_def)

lemma pick_sel:
  "questionId (pick i s) = i" "selectedAnswer (pick i s) = Some s"
  "answer_timeSpent (pick i s) = Some 30"
  by (simp_all add: pick_def)

lemma gradeAnswer_pick_b: "gradeAnswer (choiceQuestion i) (pick i (i @ ''b'')) = Inr (Some True)"
  by (simp add: gradeAnswer_def choiceQuestion_def pick_def)

lemma processAnswers_all_correct:
  "set js \<subseteq> set ids \<Longrightarrow>
     \<exists>ps. processAnswers (map choiceQuestion ids) n (map (\<lambda>i. pick i (i @ ''b'')) js)
            = Inr (ps, n + int (length js))"
proof (induction js arbitrary: n)
  case Nil
  then show ?case by simp
next
  case (Cons j js)
  then have j: "j \<in> set ids" and js: "set js \<subseteq> set ids"
    by simp_all
  from Cons.IH[OF js, of "n + 1"] obtain ps where
    "processAnswers (map choiceQuestion ids) (n + 1) (map (\<lambda>i. pick i (i @ ''b'')) js)
       = Inr (ps, n + 1 + int (length js))"
    by blast
  with j show ?case
    by (simp add: find_map_key[of question_id choiceQuestion, OF choiceQuestion_id]
          gradeAnswer_pick_b pick_sel)
qed

lemma length_ids40: "length ids40 = 40"
  by (simp add: ids40_def)

section \<open>Properties of the double arithmetic\<close>













section \<open>Scoring of a submission\<close>

text \<open>
  Whenever \<open>submit\<close> succeeds, the returned result and the persisted attempt carry the
  same score, percentage and pass flag: the score is the number of answers graded
  correct, the percentage is what \<open>percentageOf\<close> computes from the score and the number
  of populated questions of the quiz, and the pass flag says that the percentage reaches
  the quiz's passing score.
\<close>

lemma submit_result_fields:
  assumes "submit now d token quizId body = (Inr r, d')"
      and "findById quiz_id (Quizzes d) quizId = Some quiz"
  shows "res_score r =
           int (length (filter (gradedCorrect (populate question_id (Questions d) (questions quiz)))
                          (body_answers body)))
       \<and> percentageOf (res_score r)
             (length (populate question_id (Questions d) (questions quiz)))
           = Some (res_percentage r)
       \<and> res_passed r = (res_percentage r \<ge> passingScore quiz)
       \<and> (\<exists>att. QuizAttempts d' = QuizAttempts d @ [att]
              \<and> score att = res_score r
              \<and> score att = int (length (filter (\<lambda>p. ans_isCorrect p = Some True) (answers att)))
              \<and> percentage att = res_percentage r
              \<and> passed att = res_passed r)"
proof -
  let ?qs = "populate question_id (Questions d) (questions quiz)"
  from assms(1) obtain u where u: "submitHandler now d u quizId body = (Inr r, d')"
    by (rule submit_success)
  from u assms(2) obtain ps c pct spent att d1 d2 where
    pa: "processAnswers ?qs 0 (body_answers body) = Inr (ps, c)"
    and pct: "percentageOf c (length ?qs) = Some pct"
    and att: "att = \<lparr> att_quiz = quizId, student = user_id u, answers = ps, score = c,
              percentage = pct, timeSpent = spent, startedAt = now - spent * 1000,
              submittedAt = now,
              attemptNumber =
                int (length (filter (\<lambda>att. att_quiz att = quizId \<and> student att = user_id u)
                               (QuizAttempts d))) + 1,
              passed = (pct \<ge> passingScore quiz) \<rparr>"
    and d1: "d1 = d\<lparr> QuizAttempts := QuizAttempts d @ [att] \<rparr>"
    and d2: "d2 = saveQuizStatistics quizId quiz d1"
    and d3: "saveUserStatistics (user_id u) d2 = Inr d'"
    and r: "r = \<lparr> res_score = c, res_percentage = pct, res_passed = (pct \<ge> passingScore quiz),
            res_timeSpent = spent,
            res_attemptNumber =
              int (length (filter (\<lambda>att. att_quiz att = quizId \<and> student att = user_id u)
                             (QuizAttempts d))) + 1 \<rparr>"
    by (rule submitHandler_success)
  from processAnswers_count[OF pa]
  have c1: "c = int (length (filter (gradedCorrect ?qs) (body_answers body)))"
    and c2: "c = int (length (filter (\<lambda>p. ans_isCorrect p = Some True) ps))"
    by simp_all
  have atts: "QuizAttempts d' = QuizAttempts d @ [att]"
    using d1 d2 d3
    by (auto simp: saveQuizStatistics_def saveUserStatistics_def Let_def split: option.splits)
  have "score att = c" "percentage att = pct" "passed att = (pct \<ge> passingScore quiz)"
    "answers att = ps"
    using att by simp_all
  with c1 c2 pct r atts show ?thesis
    by simp
qed

text \<open>The scenario of the specification: passing score 60, four multiple-choice
  questions, three answered correctly.\<close>

lemma submit_scenario:
  "passingScore quiz4 = 60
   \<and> length (populate question_id (Questions exampleDb) (questions quiz4)) = 4
   \<and> length (filter (gradedCorrect (populate question_id (Questions exampleDb) (questions quiz4)))
               (body_answers threeOfFour)) = 3
   \<and> fst (submit 1000000 exampleDb (Some ''s1'') ''z4'' threeOfFour) =
       Inr \<lparr> res_score = 3, res_percentage = 75, res_passed = True, res_timeSpent = 120,
             res_attemptNumber = 1 \<rparr>"
proof -
  have h2: "findById quiz_id (Quizzes exampleDb) ''z4'' = Some quiz4"
    by (simp add: example_defs findById_def)
  have len: "length (populate question_id (Questions exampleDb) (questions quiz4)) = 4"
    by (simp add: example_defs findById_def populate_def List.map_filter_def)
  have pass: "passingScore quiz4 = 60"
    by (simp add: quiz4_def)
  from submit_result_fields[OF first_submit h2]
  have "length (filter (gradedCorrect (populate question_id (Questions exampleDb)
                 (questions quiz4))) (body_answers threeOfFour)) = 3"
    by auto
  with first_submit len pass show ?thesis
    by simp
qed

text \<open>
  C1 at its failing input. The quiz has forty questions and passing score 58, and
  twenty-three answers are graded correct. \<open>100 * 23 / 40\<close> is 57.5, which rounds to 58;
  the handler divides first, the double nearest to \<open>23 / 40\<close> lies below it, the product
  with 100 is the double just below 57.5, and the attempt gets percentage 57 and fails.
\<close>

theorem submit_tie_percentage:
  "passingScore quiz40 = 58
   \<and> length (populate question_id (Questions bigDb) (questions quiz40)) = 40
   \<and> length (filter (gradedCorrect (populate question_id (Questions bigDb) (questions quiz40)))
               (body_answers twentyThree)) = 23
   \<and> round (100 * 23 / 40 :: rat) = 58
   \<and> fst (submit 1000000 bigDb (Some ''s1'') ''z40'' twentyThree) =
       Inr \<lparr> res_score = 23, res_percentage = 57, res_passed = False, res_timeSpent = 1200,
             res_attemptNumber = 1 \<rparr>"
proof -
  have u: "auth bigDb (Some ''s1'') = Inr student1"
    by (simp add: bigDb_def auth_def findById_def teacherA_def student1_def)
  have u': "findById user_id [teacherA, student1] ''s1'' = Some student1"
    by (simp add: findById_def teacherA_def student1_def)
  have q: "findById quiz_id (Quizzes bigDb) ''z40'' = Some quiz40"
    by (simp add: bigDb_def findById_def quiz40_def)
  have pop: "populate question_id (Questions bigDb) (questions quiz40) = map choiceQuestion ids40"
    by (simp add: bigDb_def quiz40_def
          populate_map_key[of question_id choiceQuestion, OF choiceQuestion_id])
  have "set (take 23 ids40) \<subseteq> set ids40"
    by (rule set_take_subset)
  from processAnswers_all_correct[OF this, of 0] obtain ps where
    ps: "processAnswers (map choiceQuestion ids40) 0 (body_answers twentyThree) = Inr (ps, 23)"
    by (auto simp: twentyThree_def length_ids40)
  from processAnswers_count[OF ps]
  have cnt: "length (filter (gradedCorrect (map choiceQuestion ids40)) (body_answers twentyThree))
               = 23"
    by simp
  have facts: "role student1 = Student" "user_id student1 = ''s1''" "isPublished quiz40"
    "maxAttempts quiz40 = 3" "passingScore quiz40 = 58" "QuizAttempts bigDb = []"
    "body_timeSpent twentyThree = Some 1200" "Users bigDb = [teacherA, student1]"
    by (simp_all add: student1_def quiz40_def bigDb_def twentyThree_def)
  have res: "fst (submit 1000000 bigDb (Some ''s1'') ''z40'' twentyThree) =
       Inr \<lparr> res_score = 23, res_percentage = 57, res_passed = False, res_timeSpent = 1200,
             res_attemptNumber = 1 \<rparr>"
    by (simp add: submit_def u authorize_def submitHandler_def q pop ps Let_def length_ids40
          percentage_values saveUserStatistics_def saveQuizStatistics_def u' facts)
  have exact: "round (100 * 23 / 40 :: rat) = 58"
    by code_simp
  from facts(5) pop cnt exact res show ?thesis
    by (simp add: length_ids40)
qed

section \<open>The attempt limit\<close>

text \<open>
  C2. For an authenticated student and a published quiz: if the student's stored attempts
  on the quiz number at least \<open>maxAttempts\<close>, then \<open>submit\<close> answers
  \<open>AttemptLimitExceeded\<close> and returns the database as it was, so no attempt is added and
  no statistic of the quiz or of the user changes.
\<close>

theorem submit_attempt_limit:
  assumes "auth d token = Inr u" and "role u = Student"
    and "findById quiz_id (Quizzes d) quizId = Some quiz" and "isPublished quiz"
    and "maxAttempts quiz
           \<le> int (length (filter (\<lambda>att. att_quiz att = quizId \<and> student att = user_id u)
                            (QuizAttempts d)))"
  shows "submit now d token quizId body = (Inl AttemptLimitExceeded, d)"
  using assms by (simp add: submit_def submitHandler_def authorize_def Let_def)

text \<open>The scenario of the specification: the first attempt on a quiz with
  \<open>maxAttempts = 1\<close> succeeds, the second is refused and \<open>totalAttempts\<close> stays at 1.\<close>

theorem submit_attempt_limit_witness:
  "fst (submit 1000000 exampleDb (Some ''s1'') ''z1'' oneOfOne) =
     Inr \<lparr> res_score = 1, res_percentage = 100, res_passed = True, res_timeSpent = 60,
           res_attemptNumber = 1 \<rparr>
   \<and> auth afterOneOfOne (Some ''s1'')
       = Inr (student1\<lparr> totalQuizzesTaken := 1, user_averageScore := 100 \<rparr>)
   \<and> findById quiz_id (Quizzes afterOneOfOne) ''z1''
       = Some (quiz1\<lparr> totalAttempts := 1, averageScore := 100 \<rparr>)
   \<and> submit 2000000 afterOneOfOne (Some ''s1'') ''z1'' oneOfOne
       = (Inl AttemptLimitExceeded, afterOneOfOne)"
proof -
  let ?u = "student1\<lparr> totalQuizzesTaken := 1, user_averageScore := 100 \<rparr>"
  let ?q = "quiz1\<lparr> totalAttempts := 1, averageScore := 100 \<rparr>"
  have first: "fst (submit 1000000 exampleDb (Some ''s1'') ''z1'' oneOfOne) =
     Inr \<lparr> res_score = 1, res_percentage = 100, res_passed = True, res_timeSpent = 60,
           res_attemptNumber = 1 \<rparr>"
    by (simp add: example_defs submit_defs oneOfOne_def)
  have h1: "auth afterOneOfOne (Some ''s1'') = Inr ?u"
    by (simp add: afterOneOfOne_eq example_defs auth_def findById_def)
  have h2: "role ?u = Student"
    by (simp add: student1_def)
  have h3: "findById quiz_id (Quizzes afterOneOfOne) ''z1'' = Some ?q"
    by (simp add: afterOneOfOne_eq example_defs findById_def)
  have h4: "isPublished ?q"
    by (simp add: quiz1_def)
  have h5: "maxAttempts ?q
      \<le> int (length (filter (\<lambda>att. att_quiz att = ''z1'' \<and> student att = user_id ?u)
                       (QuizAttempts afterOneOfOne)))"
    by (simp add: afterOneOfOne_eq example_defs onlyAttempt_def)
  from submit_attempt_limit[OF h1 h2 h3 h4 h5] first h1 h3 show ?thesis
    by blast
qed

section \<open>Statistics after a submission\<close>




section \<open>Answers that name no question of the quiz\<close>




section \<open>A question without its correctness data\<close>

text \<open>
  C4 at its failing input. \<open>quiz2\<close> holds a well-formed multiple-choice question and a
  short-answer question stored without \<^verbatim>\<open>correctAnswer\<close>. The student answers both; the
  grading of the second answer throws, the whole submission ends as \<open>ServerError\<close> and
  nothing is persisted.
\<close>

theorem submit_short_answer_without_key:
  "questionType shortQuestion = ''short-answer''
   \<and> correctAnswer shortQuestion = None
   \<and> gradeAnswer shortQuestion (pick ''q5'' ''Paris'') = Inl ServerError
   \<and> submit 1000000 exampleDb (Some ''s1'') ''z2'' withShortAnswer = (Inl ServerError, exampleDb)"
proof -
  have a: "gradeAnswer shortQuestion (pick ''q5'' ''Paris'') = Inl ServerError"
    by (simp add: gradeAnswer_def shortQuestion_def pick_def)
  have b: "submit 1000000 exampleDb (Some ''s1'') ''z2'' withShortAnswer
             = (Inl ServerError, exampleDb)"
    by (simp add: example_defs submit_defs withShortAnswer_def)
  from a b show ?thesis
    by (simp add: shortQuestion_def)
qed

section \<open>The same question answered twice\<close>

text \<open>
  C8 at its failing input. \<open>quiz1\<close> has one question; the body answers it correctly
  twice. Both answers are counted, and the attempt is persisted with score 2 and
  percentage 200.
\<close>

theorem submit_repeated_answer:
  "length (populate question_id (Questions exampleDb) (questions quiz1)) = 1
   \<and> map questionId (body_answers sameAnswerTwice) = [''q1'', ''q1'']
   \<and> submit 1000000 exampleDb (Some ''s1'') ''z1'' sameAnswerTwice =
       (Inr \<lparr> res_score = 2, res_percentage = 200, res_passed = True, res_timeSpent = 60,
              res_attemptNumber = 1 \<rparr>, afterSameAnswerTwice)
   \<and> map percentage (QuizAttempts afterSameAnswerTwice) = [200]"
proof -
  have a: "length (populate question_id (Questions exampleDb) (questions quiz1)) = 1"
    by (simp add: example_defs findById_def populate_def List.map_filter_def)
  have b: "map questionId (body_answers sameAnswerTwice) = [''q1'', ''q1'']"
    by (simp add: sameAnswerTwice_def pick_def)
  have "fst (submit 1000000 exampleDb (Some ''s1'') ''z1'' sameAnswerTwice) =
       Inr \<lparr> res_score = 2, res_percentage = 200, res_passed = True, res_timeSpent = 60,
             res_attemptNumber = 1 \<rparr>"
    by (simp add: example_defs submit_defs sameAnswerTwice_def)
  then have c: "submit 1000000 exampleDb (Some ''s1'') ''z1'' sameAnswerTwice =
       (Inr \<lparr> res_score = 2, res_percentage = 200, res_passed = True, res_timeSpent = 60,
              res_attemptNumber = 1 \<rparr>, afterSameAnswerTwice)"
    by (simp add: afterSameAnswerTwice_def prod_eq_iff)
  from a b c afterSameAnswerTwice_percentages show ?thesis
    by simp
qed

section \<open>What a student reads of a quiz\<close>

text \<open>
  When \<open>getQuiz\<close> succeeds for a student, the quiz is published, the questions of the
  response are the ids of the populated questions of the quiz, in order, and the database
  is returned as it was. So the response's questions carry no correctness flag, no
  canonical answer and no explanation, and no title, text or option either.
\<close>

lemma student_read_questions:
  assumes "getQuiz d token quizId = (Inr resp, d')"
      and "auth d token = Inr u" and "role u = Student"
      and "findById quiz_id (Quizzes d) quizId = Some quiz"
  shows "d' = d
       \<and> isPublished quiz
       \<and> resp_questions resp
           = map (\<lambda>q. Ref (question_id q)) (populate question_id (Questions d) (questions quiz))"
  using assms
  by (auto simp: getQuiz_def Let_def assignQuestions_def castRef_def studentView_def
        toObject_def comp_def split: if_splits)

text \<open>The student's own earlier attempts are part of the response, with the stored
  correctness of every answer given.\<close>

lemma student_read_own_attempts:
  "map (\<lambda>att. map (\<lambda>a. (ans_selectedAnswer a, ans_isCorrect a)) (answers att))
     (case fst (getQuiz afterThreeOfFour (Some ''s1'') ''z4'') of
        Inl e \<Rightarrow> []
      | Inr resp \<Rightarrow> resp_userAttempts resp)
   = [[(Some ''q1b'', Some True), (Some ''q2b'', Some True), (Some ''q3b'', Some True),
       (Some ''q4a'', Some False)]]"
  by (simp add: getQuiz_def afterThreeOfFour_eq example_defs auth_def findById_def populate_def
        List.map_filter_def Let_def firstAttempt_def)

text \<open>
  C6 at its failing input. The student reads \<open>quiz4\<close>. The handler builds, for each of
  the four questions, the view with the options reduced to id and text; the response
  holds the four question ids and none of the views, and the database is unchanged.
\<close>

theorem student_read_bare_ids:
  "map (\<lambda>opt. (oj_id opt, oj_text opt, oj_isCorrect opt))
       (qj_options (studentView (choiceQuestion ''q1'')))
     = [(''q1a'', Some ''Lyon'', None), (''q1b'', Some ''Paris'', None)]
   \<and> getQuiz exampleDb (Some ''s1'') ''z4'' =
       (Inr \<lparr> resp_quiz = quiz4,
              resp_questions = [Ref ''q1'', Ref ''q2'', Ref ''q3'', Ref ''q4''],
              resp_userAttempts = [] \<rparr>, exampleDb)"
proof -
  have v: "map (\<lambda>opt. (oj_id opt, oj_text opt, oj_isCorrect opt))
       (qj_options (studentView (choiceQuestion ''q1'')))
     = [(''q1a'', Some ''Lyon'', None), (''q1b'', Some ''Paris'', None)]"
    by (simp add: studentView_def toObject_def choiceQuestion_def)
  have pop: "populate question_id (Questions exampleDb) (questions quiz4)
      = [choiceQuestion ''q1'', choiceQuestion ''q2'', choiceQuestion ''q3'',
         choiceQuestion ''q4'']"
    by (simp add: example_defs findById_def populate_def List.map_filter_def)
  have h2: "auth exampleDb (Some ''s1'') = Inr student1"
    by (simp add: example_defs auth_def findById_def)
  have h3: "role student1 = Student"
    by (simp add: student1_def)
  have h4: "findById quiz_id (Quizzes exampleDb) ''z4'' = Some quiz4"
    by (simp add: example_defs findById_def)
  have users: "populate user_id (Users exampleDb) (allowedStudents quiz4) = []"
    by (simp add: quiz4_def populate_def List.map_filter_def)
  have atts: "QuizAttempts exampleDb = []"
    by (simp add: exampleDb_def)
  have ids: "assignQuestions [studentView (choiceQuestion ''q1''),
                 studentView (choiceQuestion ''q2''), studentView (choiceQuestion ''q3''),
                 studentView (choiceQuestion ''q4'')]
      = [Ref ''q1'', Ref ''q2'', Ref ''q3'', Ref ''q4'']"
    by (simp add: assignQuestions_def castRef_def studentView_def toObject_def
          choiceQuestion_def)
  have "getQuiz exampleDb (Some ''s1'') ''z4'' =
       (Inr \<lparr> resp_quiz = quiz4,
              resp_questions = [Ref ''q1'', Ref ''q2'', Ref ''q3'', Ref ''q4''],
              resp_userAttempts = [] \<rparr>, exampleDb)"
    by (simp add: getQuiz_def h2 h3 h4 pop users atts ids Let_def) (simp add: quiz4_def)
  with v show ?thesis
    by simp
qed

section \<open>Registration\<close>

text \<open>
  C7 at its failing input. A visitor registers through the public route and asks for the
  role \<^verbatim>\<open>student\<close>; the account is created with the role \<open>Admin\<close>.
\<close>

theorem register_creates_admin:
  "body_role newcomer = Some ''student''
   \<and> fst (register exampleExt exampleDb newcomer) =
       Inr \<lparr> user_id = ''u9'', name = ''Eve'', email = ''eve@example.org'',
             password = ''$2a$12$secret1'', role = Admin, isActive = True,
             totalQuizzesTaken = 0, user_averageScore = 0 \<rparr>
   \<and> map role (filter (\<lambda>u. user_id u = ''u9'') (Users (snd (register exampleExt exampleDb newcomer))))
       = [Admin]"
proof -
  have t1: "trim ''Eve'' = ''Eve''"
    by code_simp
  have t2: "toLowerCase ''eve@example.org'' = ''eve@example.org''"
    by code_simp
  have t3: "trim ''eve@example.org'' = ''eve@example.org''"
    by code_simp
  have r: "register exampleExt exampleDb newcomer =
       (Inr \<lparr> user_id = ''u9'', name = ''Eve'', email = ''eve@example.org'',
             password = ''$2a$12$secret1'', role = Admin, isActive = True,
             totalQuizzesTaken = 0, user_averageScore = 0 \<rparr>,
        exampleDb\<lparr> Users := Users exampleDb @
          [\<lparr> user_id = ''u9'', name = ''Eve'', email = ''eve@example.org'',
             password = ''$2a$12$secret1'', role = Admin, isActive = True,
             totalQuizzesTaken = 0, user_averageScore = 0 \<rparr>] \<rparr>)"
    by (simp add: register_def saveNewUser_def castRole_def exampleExt_def newcomer_def
          t1 t2 t3 Let_def example_defs)
  show ?thesis
    by (simp add: r) (simp add: newcomer_def example_defs)
qed

section \<open>Ownership of questions\<close>

text \<open>
  C9. Let question \<open>q\<close> be stored with creator \<open>a\<close>, whose account exists, and let the
  requester \<open>b\<close> be an authenticated teacher other than \<open>a\<close>. Then reading, updating and
  deleting \<open>q\<close> each answer \<open>PermissionDenied\<close> and return the database as it was.
\<close>

theorem question_owner_only:
  assumes "auth d token = Inr b" and "role b = Teacher"
    and "findById question_id (Questions d) i = Some q"
    and "findById user_id (Users d) (createdBy q) = Some a"
    and "createdBy q \<noteq> user_id b"
  shows "getQuestion d token i = (Inl PermissionDenied, d)
       \<and> updateQuestion d token i assign = (Inl PermissionDenied, d)
       \<and> deleteQuestion d token i = (Inl PermissionDenied, d)"
proof -
  from assms(4) have "user_id a = createdBy q"
    by (auto simp: findById_def find_Some_iff)
  with assms show ?thesis
    by (simp add: getQuestion_def updateQuestion_def deleteQuestion_def authorize_def)
qed

theorem question_owner_only_witness:
  "auth exampleDb (Some ''tB'') = Inr teacherB
   \<and> findById question_id (Questions exampleDb) ''q1'' = Some (choiceQuestion ''q1'')
   \<and> findById user_id (Users exampleDb) (createdBy (choiceQuestion ''q1'')) = Some teacherA
   \<and> getQuestion exampleDb (Some ''tB'') ''q1'' = (Inl PermissionDenied, exampleDb)
   \<and> updateQuestion exampleDb (Some ''tB'') ''q1'' (\<lambda>q. q\<lparr> correctAnswer := Some ''Lyon'' \<rparr>)
       = (Inl PermissionDenied, exampleDb)
   \<and> deleteQuestion exampleDb (Some ''tB'') ''q1'' = (Inl PermissionDenied, exampleDb)"
proof -
  have h1: "auth exampleDb (Some ''tB'') = Inr teacherB"
    by (simp add: example_defs auth_def findById_def)
  have h2: "role teacherB = Teacher"
    by (simp add: teacherB_def)
  have h3: "findById question_id (Questions exampleDb) ''q1'' = Some (choiceQuestion ''q1'')"
    by (simp add: example_defs findById_def)
  have h4: "findById user_id (Users exampleDb) (createdBy (choiceQuestion ''q1'')) = Some teacherA"
    by (simp add: example_defs findById_def)
  have h5: "createdBy (choiceQuestion ''q1'') \<noteq> user_id teacherB"
    by (simp add: example_defs)
  from question_owner_only[OF h1 h2 h3 h4 h5] h1 h3 h4 show ?thesis
    by blast
qed

section \<open>The score histogram\<close>




end
